theory Spec2Isabelle
  imports Complex_Main
begin

section \<open>Python strings\<close>

text \<open>
  A Python \<^verbatim>\<open>str\<close> is a sequence of Unicode code points, and the views compare
  replies with Persian column names, so a string is modelled as the list of its code
  points. \<open>ascii\<close> reads an ASCII literal as such a string.
\<close>

type_synonym str = "nat list"

definition ascii :: "string \<Rightarrow> str" where
  "ascii s = map of_char s"

text \<open>
  The code points for which \<^verbatim>\<open>str.isspace\<close> holds; \<^verbatim>\<open>str.strip()\<close> removes
  them from both ends.
\<close>

definition is_space :: "nat \<Rightarrow> bool" where
  "is_space c =
     ((9 \<le> c \<and> c \<le> 13) \<or> (28 \<le> c \<and> c \<le> 32) \<or> c = 133 \<or> c = 160 \<or> c = 5760 \<or>
      (8192 \<le> c \<and> c \<le> 8202) \<or> c = 8232 \<or> c = 8233 \<or> c = 8239 \<or> c = 8287 \<or>
      c = 12288)"

definition strip :: "str \<Rightarrow> str" where
  "strip s = rev (dropWhile is_space (rev (dropWhile is_space s)))"

text \<open>
  \<^verbatim>\<open>s.split(sep)\<close> for a separator of one character: the result always has
  at least one field, and \<^verbatim>\<open>''.split(';')\<close> is \<^verbatim>\<open>['']\<close>.
\<close>

fun split_on :: "nat \<Rightarrow> str \<Rightarrow> str list" where
  "split_on sep [] = [[]]"
| "split_on sep (c # cs) =
     (if c = sep then [] # split_on sep cs
      else (case split_on sep cs of
              [] \<Rightarrow> [[c]]
            | w # ws \<Rightarrow> (c # w) # ws))"

fun startswith :: "str \<Rightarrow> str \<Rightarrow> bool" where
  "startswith s [] = True"
| "startswith [] (p # ps) = False"
| "startswith (c # cs) (p # ps) = (c = p \<and> startswith cs ps)"

text \<open>\<^verbatim>\<open>sub in s\<close>: \<open>sub\<close> occurs in \<open>s\<close> as a substring.\<close>

fun contains :: "str \<Rightarrow> str \<Rightarrow> bool" where
  "contains [] sub = (sub = [])"
| "contains (c # cs) sub = (startswith (c # cs) sub \<or> contains cs sub)"

text \<open>The decimal digits of a natural number, as an f-string renders \<^verbatim>\<open>{i+1}\<close>.\<close>

function str_of_nat :: "nat \<Rightarrow> str" where
  "str_of_nat n = (if n < 10 then [48 + n] else str_of_nat (n div 10) @ [48 + n mod 10])"
  by pat_completeness auto
termination
  by (relation "measure (\<lambda>n. n)") auto

declare str_of_nat.simps [simp del]

section \<open>Numeric coercion\<close>

text \<open>
  \<^verbatim>\<open>pd.to_numeric(x, errors='coerce')\<close> is a function of pandas, not of the
  repository. The coding reply parser and the summary take the coercion of one text
  as a parameter \<open>tn\<close>, where \<open>None\<close> stands for NaN, so that what is proved
  of them holds for whatever strings pandas accepts; the markdown parser takes the
  coercion of a column, see there. \<open>to_numeric\<close> is the instance used on concrete replies:
  it reads an optional sign followed by decimal digits as the integer they denote and
  gives NaN on every other string. pandas accepts further forms, such as decimal
  fractions; none occurs in the replies evaluated below.
\<close>

definition is_digit :: "nat \<Rightarrow> bool" where
  "is_digit c = (48 \<le> c \<and> c \<le> 57)"

definition digits_value :: "str \<Rightarrow> int" where
  "digits_value ds = foldl (\<lambda>acc c. 10 * acc + int (c - 48)) 0 ds"

definition to_numeric :: "str \<Rightarrow> int option" where
  "to_numeric s =
     (case s of
        [] \<Rightarrow> None
      | c # cs \<Rightarrow>
          if c = 45 \<and> cs \<noteq> [] \<and> list_all is_digit cs then Some (- digits_value cs)
          else if c = 43 \<and> cs \<noteq> [] \<and> list_all is_digit cs then Some (digits_value cs)
          else if list_all is_digit (c # cs) then Some (digits_value (c # cs))
          else None)"

section \<open>The coding reply parser\<close>

text \<open>
  A frame row is the dictionary \<^verbatim>\<open>row\<close> that \<^verbatim>\<open>parse_output\<close> builds: the
  value under \<^verbatim>\<open>'ID'\<close> (\<open>None\<close> is NaN) and the code cells it sets, keyed by column
  name. A column of the frame that a row does not set holds NaN in that row.
\<close>

type_synonym 'n row = "'n option \<times> (str \<times> str) list"

record 'n frame =
  fcolumns :: "str list"
  frows :: "'n row list"

text \<open>\<^verbatim>\<open>pd.DataFrame()\<close> and \<^verbatim>\<open>df.empty\<close>.\<close>

definition empty_frame :: "'n frame" where
  "empty_frame = \<lparr>fcolumns = [], frows = []\<rparr>"

definition frame_empty :: "'n frame \<Rightarrow> bool" where
  "frame_empty df = (fcolumns df = [] \<or> frows df = [])"

text \<open>The column name \<^verbatim>\<open>f'{qid}_{i+1}'\<close>.\<close>

definition code_col :: "str \<Rightarrow> nat \<Rightarrow> str" where
  "code_col qid i = qid @ ascii ''_'' @ str_of_nat (i + 1)"

text \<open>
  One turn of the loop over \<^verbatim>\<open>parts\<close>; the state is \<^verbatim>\<open>(data, max_codes)\<close>.
  44 is the comma.
\<close>

definition parse_part :: "str \<Rightarrow> (str \<times> str list) list \<times> nat \<Rightarrow> (str \<times> str list) list \<times> nat" where
  "parse_part part st =
     (if strip part = [] then st
      else let items = split_on 44 (strip part) in
        if length items < 2 then st
        else let id_val = strip (hd items);
                 codes = filter (\<lambda>code. code \<noteq> []) (map strip (tl items))
             in (fst st @ [(id_val, codes)], max (snd st) (length codes)))"

definition build_row :: "(str \<Rightarrow> 'n option) \<Rightarrow> str \<Rightarrow> str \<times> str list \<Rightarrow> 'n row" where
  "build_row tn qid d = (tn (fst d), zip (map (code_col qid) [0..<length (snd d)]) (snd d))"

definition dropna_ID :: "'n row list \<Rightarrow> 'n row list" where
  "dropna_ID rs = filter (\<lambda>r. fst r \<noteq> None) rs"

text \<open>\<^verbatim>\<open>parse_output(output, qid)\<close>; 59 is the semicolon.\<close>

definition parse_output :: "(str \<Rightarrow> 'n option) \<Rightarrow> str \<Rightarrow> str \<Rightarrow> 'n frame" where
  "parse_output tn output qid =
     (let parts = split_on 59 (strip output);
          st = fold parse_part parts ([], 0);
          data = fst st;
          max_codes = snd st
      in if data = [] then empty_frame
         else \<lparr>fcolumns = ascii ''ID'' # map (code_col qid) [0..<max_codes],
               frows = dropna_ID (map (build_row tn qid) data)\<rparr>)"

section \<open>Input validation\<close>

text \<open>
  The opened workbook, as the validation reads it: the sheets in order, each with the
  column names of its table. A file that pandas cannot open is outside this model.
\<close>

type_synonym workbook = "(str \<times> str list) list"

text \<open>
  The \<^verbatim>\<open>ValueError\<close>s that the validation raises. Each \<^verbatim>\<open>raise\<close> leaves the
  \<^verbatim>\<open>try\<close> block, so the first check that fails decides the error.
\<close>

datatype config_error =
    MissingSheets "str list"
  | CodeframeColumns
  | QuestionColumns
  | DataColumn

text \<open>The tables' columns after a successful validation.\<close>

record tables =
  codeframe_columns :: "str list"
  question_columns :: "str list"
  data_columns :: "str list"

definition required_sheets :: "str list" where
  "required_sheets = [ascii ''codeframe'', ascii ''question'', ascii ''data'']"

definition sheet_columns :: "workbook \<Rightarrow> str \<Rightarrow> str list" where
  "sheet_columns wb name = (case map_of wb name of None \<Rightarrow> [] | Some cols \<Rightarrow> cols)"

definition has_columns :: "str list \<Rightarrow> str list \<Rightarrow> bool" where
  "has_columns cols required = list_all (\<lambda>col. col \<in> set cols) required"

definition validate_workbook :: "workbook \<Rightarrow> config_error + tables" where
  "validate_workbook wb =
     (let sheet_names = map fst wb;
          missing = filter (\<lambda>s. s \<notin> set sheet_names) required_sheets
      in if missing \<noteq> [] then Inl (MissingSheets missing)
         else
           let codeframe_df = sheet_columns wb (ascii ''codeframe'');
               question_df = sheet_columns wb (ascii ''question'');
               data_df = sheet_columns wb (ascii ''data'')
           in if \<not> has_columns codeframe_df [ascii ''QID'', ascii ''CID'', ascii ''Tag'']
              then Inl CodeframeColumns
              else
                let codeframe_df' =
                      (if ascii ''Description'' \<notin> set codeframe_df
                       then codeframe_df @ [ascii ''Description''] else codeframe_df)
                in if \<not> has_columns question_df [ascii ''QID'', ascii ''Question'']
                   then Inl QuestionColumns
                   else if ascii ''ID'' \<notin> set data_df then Inl DataColumn
                   else Inr \<lparr>codeframe_columns = codeframe_df',
                             question_columns = question_df,
                             data_columns = data_df\<rparr>)"

text \<open>\<^verbatim>\<open>sep.join(xs)\<close>.\<close>

fun join :: "str \<Rightarrow> str list \<Rightarrow> str" where
  "join sep [] = []"
| "join sep [x] = x"
| "join sep (x # y # ys) = x @ sep @ join sep (y # ys)"

text \<open>
  The interface language of the session: \<^verbatim>\<open>trans(msg_en, msg_fa)\<close> gives the
  Persian text when \<^verbatim>\<open>lang == 'fa'\<close> and the English one otherwise.
\<close>

datatype lang = Fa | En

definition trans :: "lang \<Rightarrow> str \<Rightarrow> str \<Rightarrow> str" where
  "trans lang msg_en msg_fa = (if lang = Fa then msg_fa else msg_en)"

text \<open>\<^verbatim>\<open>str(e)\<close> of each error; the Persian texts are given by their code points.\<close>

fun error_text :: "lang \<Rightarrow> config_error \<Rightarrow> str" where
  "error_text lang (MissingSheets missing) =
     trans lang
       (ascii ''Missing sheets: '' @ join (ascii '', '') missing)
       ([1576, 1585, 1711, 1607, 8204, 1607, 1575, 1740, 32, 1586, 1740, 1585, 32, 1583,
         1585, 32, 1601, 1575, 1740, 1604, 32, 1740, 1575, 1601, 1578, 32, 1606, 1588,
         1583, 58, 32] @ join (ascii '', '') missing)"
| "error_text lang CodeframeColumns =
     trans lang
       (ascii ''The 'codeframe' sheet is missing required columns: QID, CID, Tag.'')
       [1576, 1585, 1711, 1607, 1620, 32, 99, 111, 100, 101, 102, 114, 97, 109, 101, 32,
        1587, 1578, 1608, 1606, 8204, 1607, 1575, 1740, 32, 1605, 1608, 1585, 1583, 32,
        1606, 1740, 1575, 1586, 32, 81, 73, 68, 1548, 32, 67, 73, 68, 32, 1608, 32, 84,
        97, 103, 32, 1585, 1575, 32, 1606, 1583, 1575, 1585, 1583, 46]"
| "error_text lang QuestionColumns =
     trans lang
       (ascii ''The 'question' sheet is missing required columns: QID, Question.'')
       [1576, 1585, 1711, 1607, 1620, 32, 113, 117, 101, 115, 116, 105, 111, 110, 32,
        1587, 1578, 1608, 1606, 8204, 1607, 1575, 1740, 32, 1605, 1608, 1585, 1583, 32,
        1606, 1740, 1575, 1586, 32, 81, 73, 68, 32, 1608, 32, 81, 117, 101, 115, 116,
        105, 111, 110, 32, 1585, 1575, 32, 1606, 1583, 1575, 1585, 1583, 46]"
| "error_text lang DataColumn =
     trans lang
       (ascii ''The 'data' sheet is missing required column: ID.'')
       [1576, 1585, 1711, 1607, 1620, 32, 100, 97, 116, 97, 32, 1587, 1578, 1608, 1606,
        32, 1605, 1608, 1585, 1583, 32, 1606, 1740, 1575, 1586, 32, 73, 68, 32, 1585,
        1575, 32, 1606, 1583, 1575, 1585, 1583, 46]"

text \<open>
  \<^verbatim>\<open>context['errors']\<close> after the validation: \<^verbatim>\<open>[str(e)]\<close> when a check
  raised, and no error otherwise.
\<close>

definition validation_errors :: "lang \<Rightarrow> workbook \<Rightarrow> str list" where
  "validation_errors lang wb =
     (case validate_workbook wb of Inl e \<Rightarrow> [error_text lang e] | Inr t \<Rightarrow> [])"

text \<open>
  Every violation that a workbook has, in the order of the checks: what the
  specification's words "a list of every violation found" denote. The validation is
  compared with it below.
\<close>

definition spec_violations :: "workbook \<Rightarrow> config_error list" where
  "spec_violations wb =
     (let missing = filter (\<lambda>s. s \<notin> set (map fst wb)) required_sheets
      in (if missing \<noteq> [] then [MissingSheets missing] else []) @
         (if has_columns (sheet_columns wb (ascii ''codeframe''))
               [ascii ''QID'', ascii ''CID'', ascii ''Tag'']
          then [] else [CodeframeColumns]) @
         (if has_columns (sheet_columns wb (ascii ''question''))
               [ascii ''QID'', ascii ''Question'']
          then [] else [QuestionColumns]) @
         (if ascii ''ID'' \<in> set (sheet_columns wb (ascii ''data'')) then [] else [DataColumn]))"

section \<open>Calling the completion endpoint\<close>

text \<open>
  What one \<^verbatim>\<open>requests.post\<close> of a question can come to: the post or
  \<^verbatim>\<open>raise_for_status\<close> raises a \<^verbatim>\<open>RequestException\<close>; the body of a JSON
  response does not decode; a JSON response carries the text at
  \<^verbatim>\<open>choices[0].message.content\<close>; a response of another content type carries its
  text. A transport gives the outcome of the k-th post made for a question, counted
  from 0.
\<close>

datatype response =
    RequestException
  | JSONDecodeError
  | JsonContent str
  | TextBody str

type_synonym transport = "nat \<Rightarrow> response"

text \<open>
  \<^verbatim>\<open>str.lower()\<close> on the ASCII letters. Unicode has more cased letters, but the
  lower-case form of none of them holds a character of \<^verbatim>\<open><!doctype\<close>, so the test
  \<^verbatim>\<open>'<!doctype' in output.lower()\<close> reads the same here as in Python.
\<close>

definition lower :: "str \<Rightarrow> str" where
  "lower s = map (\<lambda>c. if 65 \<le> c \<and> c \<le> 90 then c + 32 else c) s"

text \<open>
  The local variables of the coding flow's retry loop, with the posts made and the
  durations slept so far.
\<close>

record call_state =
  retries :: nat
  output_text :: str
  success :: bool
  posts :: nat
  sleeps :: "nat list"

definition max_retries :: nat where
  "max_retries = 6"

definition initial_call :: call_state where
  "initial_call = \<lparr>retries = 0, output_text = [], success = False, posts = 0, sleeps = []\<rparr>"

text \<open>The body of the \<^verbatim>\<open>while\<close> loop: one \<^verbatim>\<open>try\<close>.\<close>

definition on_exception :: "call_state \<Rightarrow> call_state" where
  "on_exception s =
     (let r = retries s + 1
      in s\<lparr>retries := r, posts := posts s + 1,
            sleeps := (if r < max_retries then sleeps s @ [10] else sleeps s)\<rparr>)"

definition coding_attempt :: "transport \<Rightarrow> call_state \<Rightarrow> call_state" where
  "coding_attempt tr s =
     (case tr (posts s) of
        RequestException \<Rightarrow> on_exception s
      | JSONDecodeError \<Rightarrow> on_exception s
      | JsonContent content \<Rightarrow> s\<lparr>output_text := content, success := True, posts := posts s + 1\<rparr>
      | TextBody body \<Rightarrow>
          s\<lparr>output_text := (if contains (lower body) (ascii ''<!doctype'')
                         then ascii ''Forbidden HTML response'' else body),
            success := True, posts := posts s + 1\<rparr>)"

function coding_loop :: "transport \<Rightarrow> call_state \<Rightarrow> call_state" where
  "coding_loop tr s =
     (if \<not> success s \<and> retries s < max_retries then coding_loop tr (coding_attempt tr s) else s)"
  by pat_completeness auto
termination
  by (relation "measure (\<lambda>(tr, s). if success s then 0 else Suc max_retries - retries s)")
     (auto simp: coding_attempt_def on_exception_def Let_def split: response.splits)

declare coding_loop.simps [simp del]

text \<open>
  The outcomes that the coding flow's \<^verbatim>\<open>except\<close> clause catches, and the state of
  its retry loop after \<open>k\<close> of them in a row.
\<close>

definition raises :: "response \<Rightarrow> bool" where
  "raises r = (r = RequestException \<or> r = JSONDecodeError)"

definition after_failures :: "nat \<Rightarrow> call_state" where
  "after_failures k =
     \<lparr>retries = k, output_text = [], success = False, posts = k, sleeps = replicate k 10\<rparr>"

text \<open>
  The accumulators of the loop over the questions: the fail-list, the retained frames
  and the identifiers they belong to. Every output table is computed from \<open>dfs\<close> and
  \<open>processed_qids\<close>.
\<close>

record 'n coding_state =
  fail_qids :: "str list"
  dfs :: "'n frame list"
  processed_qids :: "str list"

definition mark_failed :: "str \<Rightarrow> 'n coding_state \<Rightarrow> 'n coding_state" where
  "mark_failed qid st = st\<lparr>fail_qids := fail_qids st @ [qid]\<rparr>"

text \<open>One turn of the loop over \<^verbatim>\<open>unique_qids\<close>, from the retry loop on.\<close>

definition coding_question ::
  "(str \<Rightarrow> 'n option) \<Rightarrow> transport \<Rightarrow> str \<Rightarrow> 'n coding_state \<Rightarrow> 'n coding_state" where
  "coding_question tn tr qid st =
     (let cs = coding_loop tr initial_call
      in if \<not> success cs \<or> output_text cs = [] \<or> contains (output_text cs) (ascii ''Forbidden'') \<or>
            contains (output_text cs) (ascii ''API error'')
         then mark_failed qid st
         else
           let df_parsed = parse_output tn (output_text cs) qid
           in if frame_empty df_parsed then mark_failed qid st
              else st\<lparr>dfs := dfs st @ [df_parsed],
                      processed_qids := processed_qids st @ [qid]\<rparr>)"

section \<open>The codeframe summary\<close>

text \<open>
  \<^verbatim>\<open>qid_cols\<close>, and \<^verbatim>\<open>pd.melt\<close> over them: one melted row per value column and
  frame row, the columns in order and the frame's rows in order within a column, each
  with the row's ID and its cell in that column (\<open>None\<close> is NaN).
\<close>

definition qid_cols :: "'n frame \<Rightarrow> str \<Rightarrow> str list" where
  "qid_cols df qid = filter (\<lambda>col. startswith col (qid @ ascii ''_'')) (fcolumns df)"

definition melt :: "'n frame \<Rightarrow> str list \<Rightarrow> ('n option \<times> str option) list" where
  "melt df value_vars =
     concat (map (\<lambda>col. map (\<lambda>r. (fst r, map_of (snd r) col)) (frows df)) value_vars)"

text \<open>\<^verbatim>\<open>astype(str)\<close> on a code cell: NaN becomes the text \<^verbatim>\<open>nan\<close>.\<close>

definition astype_str :: "str option \<Rightarrow> str" where
  "astype_str cell = (case cell of None \<Rightarrow> ascii ''nan'' | Some s \<Rightarrow> s)"

text \<open>
  The melted table after its three filters: codes trimmed, blank codes dropped, codes
  that fail the numeric coercion dropped.
\<close>

definition melted_codes ::
  "(str \<Rightarrow> 'n option) \<Rightarrow> 'n frame \<Rightarrow> str \<Rightarrow> ('n option \<times> str) list" where
  "melted_codes tn df qid =
     (let melted = map (\<lambda>m. (fst m, strip (astype_str (snd m)))) (melt df (qid_cols df qid));
          melted' = filter (\<lambda>m. snd m \<noteq> []) melted
      in filter (\<lambda>m. tn (snd m) \<noteq> None) melted')"

text \<open>
  \<^verbatim>\<open>Series.value_counts()\<close>: each distinct value with the number of its
  occurrences, the larger counts first. pandas does not fix the order of values with
  equal counts; here they keep the order of their first occurrence, and no theorem
  below depends on it.
\<close>

definition value_counts :: "'a list \<Rightarrow> ('a \<times> nat) list" where
  "value_counts xs =
     sort_key (\<lambda>p. - int (snd p)) (map (\<lambda>x. (x, count_list xs x)) (rev (remdups (rev xs))))"

text \<open>
  The ID column of \<^verbatim>\<open>merged_df\<close>, up to order and repetition: the outer join on
  \<^verbatim>\<open>ID\<close> of the retained frames holds an ID exactly when one of the frames does.
\<close>

definition merged_ids :: "'n frame list \<Rightarrow> 'n option list" where
  "merged_ids fs = concat (map (\<lambda>df. map fst (frows df)) fs)"

definition total_ids :: "'n frame list \<Rightarrow> nat" where
  "total_ids fs = (if merged_ids fs \<noteq> [] then length (remdups (merged_ids fs)) else 0)"

text \<open>
  The float64 arithmetic of \<^verbatim>\<open>code_counts['Count'] / total_ids\<close>. numpy converts
  the int64 counts and the integer \<^verbatim>\<open>total_ids\<close> to float64 and divides them; both
  steps round to the nearest value with a significand of 53 bits, ties to even. A
  float64 is given by its exact value, a rational. \<open>round_div a b\<close> is the float64
  nearest to \<open>a / b\<close> for \<open>b > 0\<close>: with \<open>e\<close> the exponent of the quotient,
  \<open>2 ^ e \<le> a / b < 2 ^ (e + 1)\<close>, the quotient is scaled by \<open>2 ^ (52 - e)\<close> into
  the range from \<open>2 ^ 52\<close> to \<open>2 ^ 53\<close>, rounded to an integer and scaled back.
  Quotients of int64 values lie between \<open>2 ^ -63\<close> and \<open>2 ^ 63\<close>, well inside
  the exponent range of float64, so that range is not modelled.
\<close>

function bit_length :: "nat \<Rightarrow> nat" where
  "bit_length n = (if n = 0 then 0 else Suc (bit_length (n div 2)))"
  by pat_completeness auto
termination
  by (relation "measure (\<lambda>n. n)") auto

declare bit_length.simps [simp del]

definition float_exponent :: "nat \<Rightarrow> nat \<Rightarrow> int" where
  "float_exponent a b =
     (let e0 = int (bit_length a) - int (bit_length b)
      in if (if 0 \<le> e0 then b * 2 ^ nat e0 \<le> a else b \<le> a * 2 ^ nat (- e0))
         then e0 else e0 - 1)"

definition round_div :: "nat \<Rightarrow> nat \<Rightarrow> rat" where
  "round_div a b =
     (if a = 0 then 0
      else
        let sh = 52 - float_exponent a b;
            num = (if 0 \<le> sh then a * 2 ^ nat sh else a);
            den = (if 0 \<le> sh then b else b * 2 ^ nat (- sh));
            f = num div den;
            rem = num mod den;
            m = (if den < 2 * rem \<or> (2 * rem = den \<and> odd f) then f + 1 else f)
        in if 0 \<le> sh then of_nat m / 2 ^ nat sh else of_nat m * 2 ^ nat (- sh))"

text \<open>
  The float64 of a natural number, itself a natural number, and the quotient of two
  integers as numpy computes it.
\<close>

definition float64_of_nat :: "nat \<Rightarrow> nat" where
  "float64_of_nat a = nat \<lfloor>round_div a 1\<rfloor>"

definition true_divide :: "nat \<Rightarrow> nat \<Rightarrow> rat" where
  "true_divide a b = round_div (float64_of_nat a) (float64_of_nat b)"

text \<open>
  A row of \<^verbatim>\<open>df_codeframe\<close>. The columns \<^verbatim>\<open>Tag\<close> and \<^verbatim>\<open>Tag_en\<close> are looked
  up or blank; they do not bear on \<^verbatim>\<open>Count\<close> and \<^verbatim>\<open>Ratio\<close> and are left out.
  \<^verbatim>\<open>Ratio\<close> holds the exact value of the float64 that the code stores, or the
  integer 0 of the guard's other branch.
\<close>

record summary_row =
  s_QID :: str
  s_Code :: str
  s_Count :: nat
  s_Ratio :: rat

definition code_counts :: "(str \<Rightarrow> 'n option) \<Rightarrow> nat \<Rightarrow> str \<Rightarrow> 'n frame \<Rightarrow> summary_row list" where
  "code_counts tn n_ids qid qid_df =
     map (\<lambda>p. \<lparr>s_QID = qid, s_Code = fst p, s_Count = snd p,
                s_Ratio = (if n_ids > 0 then true_divide (snd p) n_ids else 0)\<rparr>)
       (value_counts (map snd (melted_codes tn qid_df qid)))"

definition df_codeframe :: "(str \<Rightarrow> 'n option) \<Rightarrow> 'n coding_state \<Rightarrow> summary_row list" where
  "df_codeframe tn st =
     concat (map (\<lambda>p. code_counts tn (total_ids (dfs st)) (fst p) (snd p))
               (zip (processed_qids st) (dfs st)))"

text \<open>
  The number of respondents that a code is assigned to in a frame: the distinct IDs
  among the melted rows that hold the code.
\<close>

definition respondents_with :: "(str \<Rightarrow> 'n option) \<Rightarrow> 'n frame \<Rightarrow> str \<Rightarrow> str \<Rightarrow> nat" where
  "respondents_with tn df qid code =
     length (remdups (map fst (filter (\<lambda>m. snd m = code) (melted_codes tn df qid))))"

section \<open>Category discovery\<close>

text \<open>The local variables of the discovery flow's retry loop.\<close>

record discovery_state =
  attempt :: nat
  response_md :: "str option"
  d_posts :: nat
  d_sleeps :: "nat list"

definition max_attempts :: nat where
  "max_attempts = 5"

definition initial_discovery :: discovery_state where
  "initial_discovery = \<lparr>attempt = 0, response_md = None, d_posts = 0, d_sleeps = []\<rparr>"

text \<open>
  \<^verbatim>\<open>break\<close> leaves the loop on a reply that is not blank; an empty reply goes round
  again without sleeping; any exception sleeps and goes round again.
\<close>

function discovery_loop :: "transport \<Rightarrow> discovery_state \<Rightarrow> discovery_state" where
  "discovery_loop tr s =
     (if attempt s < max_attempts then
        (case tr (d_posts s) of
           RequestException \<Rightarrow>
             discovery_loop tr
               (s\<lparr>attempt := attempt s + 1, d_posts := d_posts s + 1,
                   d_sleeps := d_sleeps s @ [5]\<rparr>)
         | JSONDecodeError \<Rightarrow>
             discovery_loop tr
               (s\<lparr>attempt := attempt s + 1, d_posts := d_posts s + 1,
                   d_sleeps := d_sleeps s @ [5]\<rparr>)
         | JsonContent content \<Rightarrow>
             (if content \<noteq> [] \<and> strip content \<noteq> []
              then s\<lparr>attempt := attempt s + 1, d_posts := d_posts s + 1,
                      response_md := Some content\<rparr>
              else discovery_loop tr
                     (s\<lparr>attempt := attempt s + 1, d_posts := d_posts s + 1,
                         response_md := Some content\<rparr>))
         | TextBody body \<Rightarrow>
             (let md = (if contains (lower body) (ascii ''<!doctype'') then [] else body)
              in if md \<noteq> [] \<and> strip md \<noteq> []
                 then s\<lparr>attempt := attempt s + 1, d_posts := d_posts s + 1,
                         response_md := Some md\<rparr>
                 else discovery_loop tr
                        (s\<lparr>attempt := attempt s + 1, d_posts := d_posts s + 1,
                            response_md := Some md\<rparr>)))
      else s)"
  by pat_completeness auto
termination
  by (relation "measure (\<lambda>(tr, s). max_attempts - attempt s)") auto

declare discovery_loop.simps [simp del]

text \<open>The markdown table parser. 10 is the line feed, 124 the vertical bar.\<close>

definition expected_cols :: "str list" where
  "expected_cols =
     [[1705, 1583, 32, 1711, 1586, 1740, 1606, 1607],
      [1593, 1606, 1608, 1575, 1606, 32, 1711, 1586, 1740, 1606, 1607]]"

definition md_lines :: "str \<Rightarrow> str list" where
  "md_lines md_table = map strip (filter (\<lambda>ln. strip ln \<noteq> []) (split_on 10 (strip md_table)))"

text \<open>\<^verbatim>\<open>[cell.strip() for cell in line.split('|')[1:-1]]\<close>.\<close>

definition row_cells :: "str \<Rightarrow> str list" where
  "row_cells line = map strip (butlast (tl (split_on 124 line)))"

definition data_start :: "str list \<Rightarrow> nat" where
  "data_start lines = (if length lines > 1 \<and> contains (lines ! 1) (ascii ''---'') then 2 else 1)"

definition data_rows :: "str list \<Rightarrow> str list list" where
  "data_rows lines =
     filter (\<lambda>cells. length cells = length (row_cells (hd lines)))
       (map row_cells (drop (data_start lines) lines))"

text \<open>
  The coercion of the code column. \<^verbatim>\<open>pd.to_numeric(column, errors='coerce')\<close>
  works on the column as a whole and gives it one numeric type, so it is a parameter
  \<open>tn_col\<close> from the cells of the column to its values, \<open>None\<close> for NaN.
  \<^verbatim>\<open>dropna\<close> then drops the rows whose code is NaN.
\<close>

definition kept_rows :: "(str list \<Rightarrow> 'n option list) \<Rightarrow> str list list \<Rightarrow> ('n \<times> str) list" where
  "kept_rows tn_col rows =
     concat (map (\<lambda>p. case fst p of None \<Rightarrow> [] | Some n \<Rightarrow> [(n, snd p)])
               (zip (tn_col (map (\<lambda>cells. cells ! 0) rows)) (map (\<lambda>cells. cells ! 1) rows)))"

text \<open>
  \<^verbatim>\<open>astype(int)\<close> casts the remaining codes, again as a column, and raises when
  one of them has no integer value, as an infinite code has; the exception is not
  caught and leaves the function and the view. The cast is a parameter \<open>astype_int\<close>
  that gives \<open>None\<close> when it raises.
\<close>

datatype cast_error = IntCastingNaNError

definition parse_md_table ::
  "(str list \<Rightarrow> 'n option list) \<Rightarrow> ('n list \<Rightarrow> int list option) \<Rightarrow> str \<Rightarrow>
   cast_error + (int \<times> str) list option" where
  "parse_md_table tn_col astype_int md_table =
     (let lines = md_lines md_table
      in if length lines < 2 then Inr None
         else
           let header_cells = row_cells (hd lines);
               rows = data_rows lines
           in if rows = [] then Inr None
              else if header_cells \<noteq> expected_cols then Inr None
              else
                let kept = kept_rows tn_col rows
                in case astype_int (map fst kept) of
                     None \<Rightarrow> Inl IntCastingNaNError
                   | Some cids \<Rightarrow>
                       let df_out = zip cids (map snd kept)
                       in if df_out \<noteq> [] then Inr (Some df_out) else Inr None)"

text \<open>
  An instance of the coercion and the cast, to run the parser on concrete replies. A
  code is an integer or infinite: \<open>code_numeric\<close> reads a signed decimal integer as
  \<open>to_numeric\<close> does and the texts \<^verbatim>\<open>inf\<close>, \<^verbatim>\<open>+inf\<close> and \<^verbatim>\<open>-inf\<close> as infinite, and
  gives NaN on every other string; the cast raises on an infinite code. They agree
  with pandas on the columns of int64 literals, infinities and plain words that are
  evaluated below.
\<close>

datatype code_value = Finite int | Infinite

definition code_numeric :: "str \<Rightarrow> code_value option" where
  "code_numeric s =
     (if s = ascii ''inf'' \<or> s = ascii ''+inf'' \<or> s = ascii ''-inf'' then Some Infinite
      else map_option Finite (to_numeric s))"

definition to_numeric_column :: "str list \<Rightarrow> code_value option list" where
  "to_numeric_column column = map code_numeric column"

fun astype_int64 :: "code_value list \<Rightarrow> int list option" where
  "astype_int64 [] = Some []"
| "astype_int64 (Finite n # vs) = map_option ((#) n) (astype_int64 vs)"
| "astype_int64 (Infinite # vs) = None"

text \<open>
  A cell of a \<^verbatim>\<open>QID\<close> column as pandas reads it from the workbook: a string, or a
  value of another type, a number. \<^verbatim>\<open>str(qid)\<close> leaves a string as it is; the text
  of another value is given by a parameter. A cell equals a string exactly when it
  holds that string.
\<close>

datatype 'c cell = Str str | Num 'c

definition str_of_cell :: "('c \<Rightarrow> str) \<Rightarrow> 'c cell \<Rightarrow> str" where
  "str_of_cell str_num qid = (case qid of Str s \<Rightarrow> s | Num c \<Rightarrow> str_num c)"

text \<open>\<^verbatim>\<open>str\<close> of an integer.\<close>

definition str_of_int :: "int \<Rightarrow> str" where
  "str_of_int i = (if i < 0 then 45 # str_of_nat (nat (- i)) else str_of_nat (nat i))"

text \<open>
  \<^verbatim>\<open>new_dfs[key] = df_new\<close> on a dictionary kept in insertion order, and one turn
  of the discovery loop over the questions, from the retry loop on. The identifier
  \<open>qid\<close> is a cell of the question table, and the parsed table is stored under
  \<^verbatim>\<open>str(qid)\<close>.
\<close>

fun dict_set :: "('k \<times> 'v) list \<Rightarrow> 'k \<Rightarrow> 'v \<Rightarrow> ('k \<times> 'v) list" where
  "dict_set [] k v = [(k, v)]"
| "dict_set (p # ps) k v = (if fst p = k then (k, v) # ps else p # dict_set ps k v)"

definition discovery_question ::
  "('c \<Rightarrow> str) \<Rightarrow> (str list \<Rightarrow> 'n option list) \<Rightarrow> ('n list \<Rightarrow> int list option) \<Rightarrow>
   transport \<Rightarrow> 'c cell \<Rightarrow> (str \<times> (int \<times> str) list) list \<Rightarrow>
   cast_error + (str \<times> (int \<times> str) list) list" where
  "discovery_question str_num tn_col astype_int tr qid new_dfs =
     (case response_md (discovery_loop tr initial_discovery) of
        None \<Rightarrow> Inr new_dfs
      | Some md \<Rightarrow>
          if md = [] then Inr new_dfs
          else (case parse_md_table tn_col astype_int md of
                  Inl e \<Rightarrow> Inl e
                | Inr None \<Rightarrow> Inr new_dfs
                | Inr (Some df_new) \<Rightarrow>
                    Inr (dict_set new_dfs (str_of_cell str_num qid) df_new)))"

text \<open>
  A codeframe row. Its \<^verbatim>\<open>CID\<close> is an integer: the column is taken to hold an
  int64 in every cell, as pandas reads a column of integers. A row that the merge
  appends has no \<^verbatim>\<open>Description\<close> (NaN, \<open>None\<close> here). The loop over one item of
  \<^verbatim>\<open>new_dfs\<close> compares the \<^verbatim>\<open>QID\<close> cells with the item's key by equality only,
  so the type of both is left open there; \<open>category_merge\<close> below runs it with cells
  and string keys.
\<close>

record 'q codeframe_row =
  QID :: 'q
  CID :: int
  Tag :: str
  Description :: "str option"

definition existing_cids :: "'q codeframe_row list \<Rightarrow> 'q \<Rightarrow> int list" where
  "existing_cids cf qid = map CID (filter (\<lambda>r. QID r = qid) cf)"

text \<open>
  The loop over the rows of \<^verbatim>\<open>df_new\<close>, giving \<^verbatim>\<open>new_rows\<close>. The set
  \<^verbatim>\<open>existing_cids\<close> is computed once before the loop and is not extended by it.
\<close>

fun new_rows :: "'q \<Rightarrow> int list \<Rightarrow> int \<Rightarrow> (int \<times> str) list \<Rightarrow> 'q codeframe_row list" where
  "new_rows qid existing max_cid [] = []"
| "new_rows qid existing max_cid (row # rest) =
     (if fst row \<notin> set existing then
        (if fst row > max_cid
         then \<lparr>QID = qid, CID = fst row, Tag = snd row, Description = None\<rparr>
                # new_rows qid existing (fst row) rest
         else \<lparr>QID = qid, CID = max_cid + 1, Tag = snd row, Description = None\<rparr>
                # new_rows qid existing (max_cid + 1) rest)
      else new_rows qid existing max_cid rest)"

definition appended_rows ::
  "'q codeframe_row list \<Rightarrow> 'q \<Rightarrow> (int \<times> str) list \<Rightarrow> 'q codeframe_row list" where
  "appended_rows updated_codeframe qid df_new =
     (let existing = existing_cids updated_codeframe qid;
          max_cid = (if existing \<noteq> [] then Max (set existing) else 0)
      in new_rows qid existing max_cid df_new)"

text \<open>
  \<^verbatim>\<open>pd.concat([updated_codeframe, pd.DataFrame(new_rows)])\<close>. The codes of
  \<^verbatim>\<open>new_rows\<close> are Python integers without bound. When each of them is an int64,
  the new frame's \<^verbatim>\<open>CID\<close> column is int64 as the codeframe's is, and the result
  holds the codes as the loop computed them. Otherwise pandas gives the column of the
  result another type, float64 for new codes below \<open>2 ^ 64\<close>, in which
  \<open>2 ^ 63 - 1\<close> and \<open>2 ^ 63\<close> are one value; the codes of such a result are not
  modelled, and \<open>Widened\<close> stands for it.
\<close>

definition int64 :: "int \<Rightarrow> bool" where
  "int64 n = (- (2 ^ 63) \<le> n \<and> n < 2 ^ 63)"

datatype 'a concat_result = Int64Frame 'a | Widened

definition merge_question ::
  "'q codeframe_row list \<Rightarrow> 'q \<times> (int \<times> str) list \<Rightarrow> 'q codeframe_row list concat_result" where
  "merge_question updated_codeframe item =
     (let rows = appended_rows updated_codeframe (fst item) (snd item)
      in if rows \<noteq> [] then
           (if list_all (\<lambda>r. int64 (CID r)) rows then Int64Frame (updated_codeframe @ rows)
            else Widened)
         else Int64Frame updated_codeframe)"

fun merge_new_dfs ::
  "'q codeframe_row list \<Rightarrow> ('q \<times> (int \<times> str) list) list \<Rightarrow>
   'q codeframe_row list concat_result" where
  "merge_new_dfs updated_codeframe [] = Int64Frame updated_codeframe"
| "merge_new_dfs updated_codeframe (item # items) =
     (case merge_question updated_codeframe item of
        Widened \<Rightarrow> Widened
      | Int64Frame cf \<Rightarrow> merge_new_dfs cf items)"

text \<open>
  The merge loop of the view: the keys of \<^verbatim>\<open>new_dfs\<close> are the strings
  \<^verbatim>\<open>str(qid)\<close>, the codeframe's \<^verbatim>\<open>QID\<close> column holds cells, and an appended row
  has the key as its \<^verbatim>\<open>QID\<close>.
\<close>

definition category_merge ::
  "'c cell codeframe_row list \<Rightarrow> (str \<times> (int \<times> str) list) list \<Rightarrow>
   'c cell codeframe_row list concat_result" where
  "category_merge df_cf new_dfs =
     merge_new_dfs df_cf (map (\<lambda>item. (Str (fst item), snd item)) new_dfs)"

definition codeframe_key :: "'q codeframe_row \<Rightarrow> 'q \<times> int" where
  "codeframe_key r = (QID r, CID r)"

section \<open>Example inputs\<close>

text \<open>
  A codeframe whose codes for \<^verbatim>\<open>Q1\<close> are 1, 2 and 3, with a row of another
  question among them, and two lists of proposed rows.
\<close>

definition codeframe_example :: "str codeframe_row list" where
  "codeframe_example =
     [\<lparr>QID = ascii ''Q1'', CID = 1, Tag = ascii ''price'', Description = Some []\<rparr>,
      \<lparr>QID = ascii ''Q1'', CID = 2, Tag = ascii ''taste'', Description = Some []\<rparr>,
      \<lparr>QID = ascii ''Q2'', CID = 10, Tag = ascii ''other'', Description = Some []\<rparr>,
      \<lparr>QID = ascii ''Q1'', CID = 3, Tag = ascii ''brand'', Description = Some []\<rparr>]"

definition proposed_example :: "(int \<times> str) list" where
  "proposed_example =
     [(2, ascii ''dup''), (10, ascii ''new-a''), (1, ascii ''dup2''), (4, ascii ''seq'')]"

definition repeated_example :: "(int \<times> str) list" where
  "repeated_example = [(5, ascii ''a''), (5, ascii ''b''), (2, ascii ''c''), (4, ascii ''d'')]"

definition no_questions :: "int coding_state" where
  "no_questions = \<lparr>fail_qids = [], dfs = [], processed_qids = []\<rparr>"

definition html_example :: str where
  "html_example = ascii ''<!DOCTYPE html><html>403</html>''"

definition flaky_html_transport :: transport where
  "flaky_html_transport k = (if k < 2 then RequestException else TextBody html_example)"

definition marked_reply_example :: str where
  "marked_reply_example = ascii ''1,5;2,7 (API error)''"

definition failing_transport :: transport where
  "failing_transport k = RequestException"

text \<open>A workbook with its three sheets, each lacking a required column.\<close>

definition workbook_example :: workbook where
  "workbook_example =
     [(ascii ''codeframe'', [ascii ''QID'', ascii ''Tag'']),
      (ascii ''question'', [ascii ''QID'']),
      (ascii ''data'', [ascii ''Q1''])]"

text \<open>
  Replies to the discovery prompt. Each has the expected header and a separator; the
  first has a row of two cells and a row of three.
\<close>

definition md_header :: str where
  "md_header =
     [124] @ expected_cols ! 0 @ [124] @ expected_cols ! 1 @ [124, 10] @
     ascii ''|---|---|'' @ [10]"




text \<open>
  A codeframe whose \<^verbatim>\<open>QID\<close> column holds the number 1, with the codes 1 and 2,
  and a reply that proposes the codes 1 and 2 for that question.
\<close>

definition numeric_codeframe :: "int cell codeframe_row list" where
  "numeric_codeframe =
     [\<lparr>QID = Num 1, CID = 1, Tag = ascii ''price'', Description = Some []\<rparr>,
      \<lparr>QID = Num 1, CID = 2, Tag = ascii ''taste'', Description = Some []\<rparr>]"

definition md_proposal_example :: str where
  "md_proposal_example = md_header @ ascii ''|1|cost|'' @ [10] @ ascii ''|2|flavour|''"

text \<open>
  The coding flow on one question whose reply gives respondent 1 the code 5 twice and
  respondent 2 the code 7.
\<close>

definition repeated_code_reply :: str where
  "repeated_code_reply = ascii ''1,5,5;2,7''"

definition repeated_code_state :: "int coding_state" where
  "repeated_code_state =
     coding_question to_numeric (\<lambda>k. JsonContent repeated_code_reply) (ascii ''Q1'') no_questions"

text \<open>The frame of the reply of claim C1.\<close>

definition frame_example :: "int frame" where
  "frame_example = parse_output to_numeric (ascii ''1,5,7;2,5;abc;3,'') (ascii ''Q1'')"

section \<open>Evaluating strings\<close>

lemma ascii_Nil [simp]: "ascii [] = []"
  by (simp add: ascii_def)

lemma ascii_Cons [simp]: "ascii (c # cs) = of_char c # ascii cs"
  by (simp add: ascii_def)

lemmas parse_output_eval =
  parse_output_def parse_part_def strip_def is_space_def Let_def build_row_def dropna_ID_def
  code_col_def str_of_nat.simps to_numeric_def is_digit_def digits_value_def empty_frame_def
  upt_conv_Cons

lemmas md_table_eval =
  parse_md_table_def md_lines_def row_cells_def data_start_def data_rows_def kept_rows_def
  md_header_def expected_cols_def strip_def is_space_def
  to_numeric_column_def code_numeric_def to_numeric_def is_digit_def digits_value_def Let_def

section \<open>The coding reply parser on the reply of the specification\<close>

text \<open>
  Claim C1, as amended. On the reply \<^verbatim>\<open>1,5,7;2,5;abc;3,\<close> for question \<^verbatim>\<open>Q1\<close> the
  parser returns a frame with the columns \<^verbatim>\<open>ID, Q1_1, Q1_2\<close> and three rows:
  respondent 1 with the codes 5 and 7, respondent 2 with the code 5, and respondent 3
  with no code. The segment \<^verbatim>\<open>abc\<close> is dropped because it has a single field; the
  segment \<^verbatim>\<open>3,\<close> has two fields, the second blank, and is kept.
\<close>

theorem parse_output_reply_example:
  "parse_output to_numeric (ascii ''1,5,7;2,5;abc;3,'') (ascii ''Q1'') =
     \<lparr>fcolumns = [ascii ''ID'', ascii ''Q1_1'', ascii ''Q1_2''],
       frows = [(Some 1, [(ascii ''Q1_1'', ascii ''5''), (ascii ''Q1_2'', ascii ''7'')]),
                (Some 2, [(ascii ''Q1_1'', ascii ''5'')]),
                (Some 3, [])]\<rparr>"
  by (simp add: parse_output_eval)

text \<open>The frame of that reply does not have exactly the two rows of respondents 1 and 2.\<close>

theorem parse_output_reply_counterexample:
  "length (frows (parse_output to_numeric (ascii ''1,5,7;2,5;abc;3,'') (ascii ''Q1''))) = 3 \<and>
   frows (parse_output to_numeric (ascii ''1,5,7;2,5;abc;3,'') (ascii ''Q1'')) \<noteq>
     [(Some 1, [(ascii ''Q1_1'', ascii ''5''), (ascii ''Q1_2'', ascii ''7'')]),
      (Some 2, [(ascii ''Q1_1'', ascii ''5'')])]"
  by (simp add: parse_output_eval)

section \<open>The merge of proposed categories\<close>

text \<open>
  Every row that the loop appends carries the question's identifier and a code above
  the running maximum, so the codes of the appended rows increase strictly.
\<close>

lemma new_rows_above:
  "r \<in> set (new_rows qid existing max_cid rows) \<Longrightarrow> max_cid < CID r \<and> QID r = qid"
proof (induction rows arbitrary: max_cid)
  case Nil
  then show ?case by simp
next
  case (Cons row rest)
  show ?case
  proof (cases "fst row \<in> set existing")
    case True
    with Cons show ?thesis by simp
  next
    case False
    show ?thesis
    proof (cases "max_cid < fst row")
      case True
      with False Cons.prems have "CID r = fst row \<and> QID r = qid \<or> r \<in> set (new_rows qid existing (fst row) rest)"
        by auto
      with True Cons.IH [of "fst row"] show ?thesis by auto
    next
      case ge: False
      with False Cons.prems have "CID r = max_cid + 1 \<and> QID r = qid \<or> r \<in> set (new_rows qid existing (max_cid + 1) rest)"
        by auto
      with Cons.IH [of "max_cid + 1"] show ?thesis by auto
    qed
  qed
qed

lemma new_rows_increasing:
  "sorted_wrt (<) (map CID (new_rows qid existing max_cid rows))"
proof (induction rows arbitrary: max_cid)
  case Nil
  then show ?case by simp
next
  case (Cons row rest)
  then show ?case
    by (auto dest: new_rows_above)
qed

lemma new_rows_distinct: "distinct (map CID (new_rows qid existing max_cid rows))"
  using new_rows_increasing [of qid existing max_cid rows] strict_sorted_iff by blast

lemma appended_rows_fresh:
  assumes "r \<in> set (appended_rows cf qid df_new)"
  shows "QID r = qid \<and> CID r \<notin> set (existing_cids cf qid)"
proof (cases "existing_cids cf qid = []")
  case True
  with assms show ?thesis
    by (auto simp: appended_rows_def Let_def dest: new_rows_above)
next
  case False
  with assms have above: "Max (set (existing_cids cf qid)) < CID r" and q: "QID r = qid"
    by (auto simp: appended_rows_def Let_def dest: new_rows_above)
  have "c \<le> Max (set (existing_cids cf qid))" if "c \<in> set (existing_cids cf qid)" for c
    using that by simp
  with above q show ?thesis by fastforce
qed

lemma appended_rows_distinct: "distinct (map CID (appended_rows cf qid df_new))"
  by (simp add: appended_rows_def Let_def new_rows_distinct)

lemma merge_question_unique:
  assumes "distinct (map codeframe_key cf)" and "merge_question cf item = Int64Frame cf'"
  shows "distinct (map codeframe_key cf')"
proof -
  let ?rows = "appended_rows cf (fst item) (snd item)"
  have same: "codeframe_key r = (fst item, CID r)" if "r \<in> set ?rows" for r
    using appended_rows_fresh [OF that] by (simp add: codeframe_key_def)
  have "map codeframe_key ?rows = map (\<lambda>r. (fst item, CID r)) ?rows"
    using same by simp
  also have "\<dots> = map (Pair (fst item)) (map CID ?rows)"
    by simp
  finally have keys: "map codeframe_key ?rows = map (Pair (fst item)) (map CID ?rows)" .
  have d2: "distinct (map codeframe_key ?rows)"
    unfolding keys using appended_rows_distinct [of cf "fst item" "snd item"]
    by (simp add: distinct_map inj_on_def)
  have disj: "set (map codeframe_key cf) \<inter> set (map codeframe_key ?rows) = {}"
  proof (rule ccontr)
    assume "set (map codeframe_key cf) \<inter> set (map codeframe_key ?rows) \<noteq> {}"
    then obtain old new where o: "old \<in> set cf" and n: "new \<in> set ?rows"
      and eq: "codeframe_key old = codeframe_key new"
      by fastforce
    from appended_rows_fresh [OF n] have "QID new = fst item"
      and fresh: "CID new \<notin> set (existing_cids cf (fst item))" by auto
    with eq have q: "QID old = fst item" and c: "CID old = CID new"
      by (auto simp: codeframe_key_def)
    from o q have "CID old \<in> set (existing_cids cf (fst item))"
      by (simp add: existing_cids_def)
    with c fresh show False by simp
  qed
  from assms(2) have "cf' = cf @ ?rows \<or> cf' = cf"
    by (auto simp: merge_question_def Let_def split: if_splits)
  with assms(1) d2 disj show ?thesis
    by auto
qed

text \<open>
  While the codes stay int64, a codeframe in which the pairs (QID, CID) are distinct
  stays so through the loop over the items, for keys of the type of the \<^verbatim>\<open>QID\<close>
  cells.
\<close>

lemma merge_new_dfs_unique:
  "merge_new_dfs cf items = Int64Frame cf' \<Longrightarrow> distinct (map codeframe_key cf) \<Longrightarrow>
   distinct (map codeframe_key cf')"
proof (induction items arbitrary: cf)
  case Nil
  then show ?case by simp
next
  case (Cons item items)
  from Cons.prems(1) obtain cf1 where m: "merge_question cf item = Int64Frame cf1"
    and r: "merge_new_dfs cf1 items = Int64Frame cf'"
    by (auto split: concat_result.splits)
  from merge_question_unique [OF Cons.prems(2) m] have "distinct (map codeframe_key cf1)" .
  with Cons.IH [OF r] show ?case .
qed

text \<open>A code that is no int64 takes the result out of the int64 frames.\<close>

lemma merge_beyond_int64:
  "merge_new_dfs codeframe_example
     [(ascii ''Q1'', [(9223372036854775807, ascii ''a''), (5, ascii ''b'')])] = Widened"
  by (simp add: merge_question_def appended_rows_def existing_cids_def codeframe_example_def
        int64_def)

text \<open>
  Claim C2, as amended. For a codeframe whose codes for the question are 1, 2 and 3 and
  the proposed rows (2, dup), (10, new-a), (1, dup2), (4, seq) in this order, the rows
  appended for the question are exactly (10, new-a) and (11, seq): 10 is above the
  maximum 3 and is kept, raising the maximum to 10; 4 is not above 10 and gets the
  next code after the maximum, 11.
\<close>

theorem merge_example:
  assumes "set (existing_cids cf qid) = {1, 2, 3}"
  shows "appended_rows cf qid proposed_example =
           [\<lparr>QID = qid, CID = 10, Tag = ascii ''new-a'', Description = None\<rparr>,
            \<lparr>QID = qid, CID = 11, Tag = ascii ''seq'', Description = None\<rparr>]"
proof -
  from assms have ne: "existing_cids cf qid \<noteq> []"
    by auto
  from assms have mx: "Max (set (existing_cids cf qid)) = 3"
    by simp
  show ?thesis
    unfolding appended_rows_def Let_def proposed_example_def
    using ne mx assms by simp
qed

lemma existing_example: "set (existing_cids codeframe_example (ascii ''Q1'')) = {1, 2, 3}"
  by (auto simp: existing_cids_def codeframe_example_def)

theorem merge_example_witness:
  "set (existing_cids codeframe_example (ascii ''Q1'')) = {1, 2, 3} \<and>
   merge_new_dfs codeframe_example [(ascii ''Q1'', proposed_example)] =
     Int64Frame
       (codeframe_example @
          [\<lparr>QID = ascii ''Q1'', CID = 10, Tag = ascii ''new-a'', Description = None\<rparr>,
           \<lparr>QID = ascii ''Q1'', CID = 11, Tag = ascii ''seq'', Description = None\<rparr>])"
  using merge_example [OF existing_example] existing_example
  by (simp add: merge_question_def int64_def)

text \<open>The last proposed row is not appended with the code 5.\<close>

theorem merge_example_counterexample:
  "appended_rows codeframe_example (ascii ''Q1'') proposed_example \<noteq>
     [\<lparr>QID = ascii ''Q1'', CID = 10, Tag = ascii ''new-a'', Description = None\<rparr>,
      \<lparr>QID = ascii ''Q1'', CID = 5, Tag = ascii ''seq'', Description = None\<rparr>]"
  by (simp add: appended_rows_def existing_cids_def codeframe_example_def proposed_example_def)

text \<open>
  Claim C3, on the code. The question table and the codeframe hold the number 1 as the
  identifier of a question whose codes are 1 and 2, and the reply proposes the codes 1
  and 2. The parsed table is stored under the string \<^verbatim>\<open>1\<close>, which no \<^verbatim>\<open>QID\<close>
  cell of the codeframe equals; the merge finds no existing code, takes 0 as the maximum
  and appends the codes 1 and 2 for the question beside the codes 1 and 2 that it has.
\<close>

theorem numeric_qid_merge:
  "discovery_question str_of_int to_numeric_column astype_int64
     (\<lambda>k. JsonContent md_proposal_example) (Num 1) [] =
     Inr [(ascii ''1'', [(1, ascii ''cost''), (2, ascii ''flavour'')])] \<and>
   existing_cids numeric_codeframe (Num 1) = [1, 2] \<and>
   existing_cids numeric_codeframe (Str (ascii ''1'')) = [] \<and>
   category_merge numeric_codeframe
     [(ascii ''1'', [(1, ascii ''cost''), (2, ascii ''flavour'')])] =
     Int64Frame
       (numeric_codeframe @
          [\<lparr>QID = Str (ascii ''1''), CID = 1, Tag = ascii ''cost'', Description = None\<rparr>,
           \<lparr>QID = Str (ascii ''1''), CID = 2, Tag = ascii ''flavour'',
              Description = None\<rparr>])"
proof -
  have loop: "discovery_loop (\<lambda>k. JsonContent md_proposal_example) initial_discovery =
      \<lparr>attempt = 1, response_md = Some md_proposal_example, d_posts = 1, d_sleeps = []\<rparr>"
    by (simp add: discovery_loop.simps initial_discovery_def max_attempts_def
          md_proposal_example_def md_header_def expected_cols_def strip_def is_space_def)
  have ne: "md_proposal_example \<noteq> []"
    by (simp add: md_proposal_example_def md_header_def)
  have parse: "parse_md_table to_numeric_column astype_int64 md_proposal_example =
      Inr (Some [(1, ascii ''cost''), (2, ascii ''flavour'')])"
    by (simp add: md_table_eval md_proposal_example_def)
  have q: "discovery_question str_of_int to_numeric_column astype_int64
      (\<lambda>k. JsonContent md_proposal_example) (Num 1) [] =
      Inr [(ascii ''1'', [(1, ascii ''cost''), (2, ascii ''flavour'')])]"
    by (simp add: discovery_question_def loop ne parse str_of_cell_def str_of_int_def
          str_of_nat.simps)
  have m: "category_merge numeric_codeframe
      [(ascii ''1'', [(1, ascii ''cost''), (2, ascii ''flavour'')])] =
      Int64Frame
        (numeric_codeframe @
           [\<lparr>QID = Str (ascii ''1''), CID = 1, Tag = ascii ''cost'', Description = None\<rparr>,
            \<lparr>QID = Str (ascii ''1''), CID = 2, Tag = ascii ''flavour'',
               Description = None\<rparr>])"
    by (simp add: category_merge_def merge_question_def appended_rows_def existing_cids_def
          numeric_codeframe_def int64_def)
  have e: "existing_cids numeric_codeframe (Num 1) = [1, 2] \<and>
      existing_cids numeric_codeframe (Str (ascii ''1'')) = []"
    by (simp add: existing_cids_def numeric_codeframe_def)
  from q e m show ?thesis
    by (intro conjI) simp_all
qed

theorem numeric_qid_merge_witness:
  "map CID
     (case category_merge numeric_codeframe
             [(ascii ''1'', [(1, ascii ''cost''), (2, ascii ''flavour'')])] of
        Int64Frame cf \<Rightarrow> cf
      | Widened \<Rightarrow> []) = [1, 2, 1, 2]"
  using numeric_qid_merge by (simp add: numeric_codeframe_def del: ascii_Cons)

section \<open>The retry loop of the coding flow\<close>

text \<open>
  After \<open>k\<close> posts that raise, with attempts left, the loop has slept \<open>k\<close> times and
  posts again; the first post that does not raise ends it.
\<close>

lemma coding_loop_done: "success s \<Longrightarrow> coding_loop tr s = s"
  by (simp add: coding_loop.simps)

lemma coding_attempt_raises:
  "raises (tr (posts s)) \<Longrightarrow> coding_attempt tr s = on_exception s"
  by (auto simp: raises_def coding_attempt_def)

lemma coding_attempt_success:
  "\<not> raises (tr (posts s)) \<Longrightarrow> success (coding_attempt tr s)"
  by (auto simp: raises_def coding_attempt_def split: response.splits)

lemma coding_loop_failures:
  assumes "\<not> success s" and "retries s + k < max_retries"
    and "\<And>j. j < k \<Longrightarrow> raises (tr (posts s + j))"
  shows "coding_loop tr s =
           coding_loop tr (s\<lparr>retries := retries s + k, posts := posts s + k,
                              sleeps := sleeps s @ replicate k 10\<rparr>)"
  using assms
proof (induction k arbitrary: s)
  case 0
  then show ?case by simp
next
  case (Suc k)
  let ?s' = "s\<lparr>retries := retries s + 1, posts := posts s + 1, sleeps := sleeps s @ [10]\<rparr>"
  from Suc.prems(3) [of 0] have "raises (tr (posts s))"
    by simp
  with Suc.prems(2) have att: "coding_attempt tr s = ?s'"
    by (simp add: coding_attempt_raises on_exception_def Let_def)
  from Suc.prems(1,2) have "coding_loop tr s = coding_loop tr (coding_attempt tr s)"
    by (subst coding_loop.simps) simp
  also have "\<dots> = coding_loop tr ?s'"
    by (simp only: att)
  also have "\<dots> = coding_loop tr (?s'\<lparr>retries := retries ?s' + k, posts := posts ?s' + k,
                                         sleeps := sleeps ?s' @ replicate k 10\<rparr>)"
  proof (rule Suc.IH)
    show "\<not> success ?s'" using Suc.prems(1) by simp
    show "retries ?s' + k < max_retries" using Suc.prems(2) by simp
    show "raises (tr (posts ?s' + j))" if "j < k" for j
      using Suc.prems(3) [of "Suc j"] that by simp
  qed
  finally show ?case
    by (simp add: replicate_append_same)
qed

lemma coding_loop_reply:
  assumes "k < max_retries" and "\<And>j. j < k \<Longrightarrow> raises (tr j)" and "\<not> raises (tr k)"
  shows "coding_loop tr initial_call = coding_attempt tr (after_failures k)"
proof -
  have "coding_loop tr initial_call =
          coding_loop tr (initial_call\<lparr>retries := retries initial_call + k,
                                        posts := posts initial_call + k,
                                        sleeps := sleeps initial_call @ replicate k 10\<rparr>)"
    using assms(1,2) by (intro coding_loop_failures) (simp_all add: initial_call_def)
  also have "\<dots> = coding_loop tr (after_failures k)"
    by (simp add: initial_call_def after_failures_def)
  also have "\<dots> = coding_loop tr (coding_attempt tr (after_failures k))"
    using assms(1) by (subst coding_loop.simps) (simp add: after_failures_def)
  also have "\<dots> = coding_attempt tr (after_failures k)"
    using assms(3) by (intro coding_loop_done coding_attempt_success) (simp add: after_failures_def)
  finally show ?thesis .
qed

lemma contains_Forbidden_marker: "contains (ascii ''Forbidden HTML response'') (ascii ''Forbidden'')"
  by simp

text \<open>
  Claim C9. When a post of the coding flow, after any number of failed attempts within
  the budget, is answered by a response that is not JSON and whose text holds the
  marker \<^verbatim>\<open><!doctype\<close> in any letter case, the loop ends with that post (no retry and
  no sleep follow it), the output text is \<^verbatim>\<open>Forbidden HTML response\<close>, and the
  question is appended to the fail-list while the retained frames and the processed
  identifiers, from which every output is computed, stay as they were.
\<close>

theorem html_reply_fails_without_retry:
  assumes "k < max_retries" and "\<forall>j<k. raises (tr j)"
    and "tr k = TextBody body" and "contains (lower body) (ascii ''<!doctype'')"
  shows "coding_loop tr initial_call =
           \<lparr>retries = k, output_text = ascii ''Forbidden HTML response'', success = True,
             posts = k + 1, sleeps = replicate k 10\<rparr> \<and>
         fail_qids (coding_question tn tr qid st) = fail_qids st @ [qid] \<and>
         dfs (coding_question tn tr qid st) = dfs st \<and>
         processed_qids (coding_question tn tr qid st) = processed_qids st"
proof -
  from assms(3) have "\<not> raises (tr k)"
    by (simp add: raises_def)
  with assms(1,2) have "coding_loop tr initial_call = coding_attempt tr (after_failures k)"
    by (intro coding_loop_reply) simp_all
  with assms(3,4) have loop: "coding_loop tr initial_call =
      \<lparr>retries = k, output_text = ascii ''Forbidden HTML response'', success = True,
        posts = k + 1, sleeps = replicate k 10\<rparr>"
    by (simp add: coding_attempt_def after_failures_def)
  have "coding_question tn tr qid st = mark_failed qid st"
    unfolding coding_question_def Let_def loop
    using contains_Forbidden_marker by simp
  with loop show ?thesis
    by (simp add: mark_failed_def)
qed

lemma html_example_marker: "contains (lower html_example) (ascii ''<!doctype'')"
  by (simp add: lower_def html_example_def)

theorem html_reply_fails_without_retry_witness:
  "2 < max_retries \<and> raises (flaky_html_transport 0) \<and> raises (flaky_html_transport 1) \<and>
   flaky_html_transport 2 = TextBody html_example \<and>
   contains (lower html_example) (ascii ''<!doctype'') \<and>
   posts (coding_loop flaky_html_transport initial_call) = 3 \<and>
   sleeps (coding_loop flaky_html_transport initial_call) = [10, 10] \<and>
   coding_question to_numeric flaky_html_transport (ascii ''Q1'') no_questions =
     \<lparr>fail_qids = [ascii ''Q1''], dfs = [], processed_qids = []\<rparr>"
proof -
  have a: "2 < max_retries"
    by (simp add: max_retries_def)
  have b: "\<forall>j<2. raises (flaky_html_transport j)"
    by (simp add: flaky_html_transport_def raises_def)
  have c: "flaky_html_transport 2 = TextBody html_example"
    by (simp add: flaky_html_transport_def)
  from html_reply_fails_without_retry [OF a b c html_example_marker, of to_numeric "ascii ''Q1''" no_questions]
    a b c html_example_marker
  show ?thesis
    by (simp add: no_questions_def numeral_2_eq_2 less_Suc_eq del: ascii_Cons)
qed

text \<open>
  Claim C10. In the coding flow, a reply that is received, after any number of failed
  attempts within the budget, and whose text holds \<^verbatim>\<open>Forbidden\<close> or \<^verbatim>\<open>API error\<close>
  somewhere makes the question fail although the call succeeded: the question is
  appended to the fail-list, and the retained frames and processed identifiers stay as
  they were, whatever the reply would parse to.
\<close>

theorem marker_substring_fails:
  assumes "k < max_retries" and "\<forall>j<k. raises (tr j)"
    and "tr k = JsonContent reply \<or> tr k = TextBody reply"
    and "contains reply (ascii ''Forbidden'') \<or> contains reply (ascii ''API error'')"
  shows "success (coding_loop tr initial_call) \<and>
         fail_qids (coding_question tn tr qid st) = fail_qids st @ [qid] \<and>
         dfs (coding_question tn tr qid st) = dfs st \<and>
         processed_qids (coding_question tn tr qid st) = processed_qids st"
proof -
  from assms(3) have nr: "\<not> raises (tr k)"
    by (auto simp: raises_def)
  with assms(1,2) have loop: "coding_loop tr initial_call = coding_attempt tr (after_failures k)"
    by (intro coding_loop_reply) simp_all
  from nr have ok: "success (coding_loop tr initial_call)"
    unfolding loop by (intro coding_attempt_success) (simp add: after_failures_def)
  from assms(3) have "output_text (coding_loop tr initial_call) = reply \<or>
      output_text (coding_loop tr initial_call) = ascii ''Forbidden HTML response''"
    unfolding loop by (auto simp: coding_attempt_def after_failures_def)
  with assms(4) contains_Forbidden_marker
  have "contains (output_text (coding_loop tr initial_call)) (ascii ''Forbidden'') \<or>
        contains (output_text (coding_loop tr initial_call)) (ascii ''API error'')"
    by auto
  then have "coding_question tn tr qid st = mark_failed qid st"
    unfolding coding_question_def Let_def by auto
  with ok show ?thesis
    by (simp add: mark_failed_def)
qed

theorem marker_substring_fails_witness:
  "contains marked_reply_example (ascii ''API error'') \<and>
   \<not> frame_empty (parse_output to_numeric marked_reply_example (ascii ''Q1'')) \<and>
   coding_question to_numeric (\<lambda>k. JsonContent marked_reply_example) (ascii ''Q1'') no_questions =
     \<lparr>fail_qids = [ascii ''Q1''], dfs = [], processed_qids = []\<rparr>"
proof -
  have a: "contains marked_reply_example (ascii ''API error'')"
    by (simp add: marked_reply_example_def)
  have b: "\<not> frame_empty (parse_output to_numeric marked_reply_example (ascii ''Q1''))"
    by (simp add: marked_reply_example_def frame_empty_def parse_output_eval)
  have c: "0 < max_retries"
    by (simp add: max_retries_def)
  from marker_substring_fails [of 0 "\<lambda>k. JsonContent marked_reply_example" marked_reply_example
      to_numeric "ascii ''Q1''" no_questions] a b c
  show ?thesis
    by (simp add: no_questions_def del: ascii_Cons)
qed

section \<open>A transport that always fails\<close>

lemmas retry_eval =
  coding_loop.simps coding_attempt_def on_exception_def initial_call_def max_retries_def
  discovery_loop.simps initial_discovery_def max_attempts_def failing_transport_def Let_def

text \<open>
  Claim C4, on the code. With a transport that raises on every post, the coding flow
  posts 6 times and sleeps 5 times, not after the last attempt, and the question is
  marked failed. The discovery flow posts 5 times and the question is skipped, but it
  sleeps 5 times, once after every failed attempt, the last included; the claim has 4.
\<close>

theorem failing_transport_attempts:
  "coding_loop failing_transport initial_call =
     \<lparr>retries = 6, output_text = [], success = False, posts = 6,
       sleeps = [10, 10, 10, 10, 10]\<rparr> \<and>
   coding_question tn failing_transport qid st = mark_failed qid st \<and>
   discovery_loop failing_transport initial_discovery =
     \<lparr>attempt = 5, response_md = None, d_posts = 5, d_sleeps = [5, 5, 5, 5, 5]\<rparr> \<and>
   discovery_question str_num tn_col astype_int failing_transport qid' new_dfs = Inr new_dfs"
proof -
  have c: "coding_loop failing_transport initial_call =
      \<lparr>retries = 6, output_text = [], success = False, posts = 6,
        sleeps = [10, 10, 10, 10, 10]\<rparr>"
    by (simp add: retry_eval)
  have d: "discovery_loop failing_transport initial_discovery =
      \<lparr>attempt = 5, response_md = None, d_posts = 5, d_sleeps = [5, 5, 5, 5, 5]\<rparr>"
    by (simp add: retry_eval)
  show ?thesis
    by (simp add: c d coding_question_def discovery_question_def)
qed

theorem failing_transport_attempts_witness:
  "length (sleeps (coding_loop failing_transport initial_call)) = 5 \<and>
   length (d_sleeps (discovery_loop failing_transport initial_discovery)) = 5 \<and>
   coding_question to_numeric failing_transport (ascii ''Q1'') no_questions =
     \<lparr>fail_qids = [ascii ''Q1''], dfs = [], processed_qids = []\<rparr>"
  using failing_transport_attempts
          [of to_numeric "ascii ''Q1''" no_questions str_of_int to_numeric_column
              astype_int64 "Num 1" "[]"]
  by (simp add: mark_failed_def no_questions_def del: ascii_Cons)

section \<open>Input validation\<close>

text \<open>
  Claim C5, as amended. The validation reports one violation only: its error list is
  the text of the first violation of the workbook, in the order missing sheets,
  codeframe columns, question columns, data column, and is empty when there is none.
  Further violations are not listed.
\<close>

theorem validation_reports_first_violation:
  "validation_errors lang wb = map (error_text lang) (take 1 (spec_violations wb)) \<and>
   length (validation_errors lang wb) \<le> 1"
  by (simp add: validation_errors_def validate_workbook_def spec_violations_def Let_def)

text \<open>
  A workbook that lacks a required column in each of its three tables has three
  violations, and only the codeframe's is reported.
\<close>

theorem validation_counterexample:
  "spec_violations workbook_example = [CodeframeColumns, QuestionColumns, DataColumn] \<and>
   validation_errors En workbook_example =
     [ascii ''The 'codeframe' sheet is missing required columns: QID, CID, Tag.'']"
  by (simp add: validation_errors_def validate_workbook_def spec_violations_def Let_def
        workbook_example_def required_sheets_def sheet_columns_def has_columns_def trans_def)

section \<open>The markdown table parser\<close>

lemma data_rows_Nil_iff:
  "data_rows lines = [] \<longleftrightarrow>
     (\<forall>ln \<in> set (drop (data_start lines) lines).
        length (row_cells ln) \<noteq> length (row_cells (hd lines)))"
  by (auto simp: data_rows_def filter_empty_conv)







section \<open>The codeframe summary\<close>

lemma count_list_map_snd:
  "count_list (map snd ms) c = length (filter (\<lambda>m. snd m = c) ms)"
  by (induction ms) auto

lemma value_counts_member:
  "p \<in> set (value_counts xs) \<Longrightarrow> snd p = count_list xs (fst p) \<and> fst p \<in> set xs"
  by (auto simp: value_counts_def)

lemma code_counts_member:
  assumes "r \<in> set (code_counts tn n_ids qid df)"
  shows "s_QID r = qid"
    and "s_Count r = length (filter (\<lambda>m. snd m = s_Code r) (melted_codes tn df qid))"
    and "s_Ratio r = (if n_ids > 0 then true_divide (s_Count r) n_ids else 0)"
    and "s_Code r \<in> snd ` set (melted_codes tn df qid)"
proof -
  from assms obtain p where p: "p \<in> set (value_counts (map snd (melted_codes tn df qid)))"
    and r: "r = \<lparr>s_QID = qid, s_Code = fst p, s_Count = snd p,
                 s_Ratio = (if n_ids > 0 then true_divide (snd p) n_ids else 0)\<rparr>"
    by (auto simp: code_counts_def)
  from value_counts_member [OF p] r
  show "s_Count r = length (filter (\<lambda>m. snd m = s_Code r) (melted_codes tn df qid))"
    by (simp add: count_list_map_snd)
  from r show "s_QID r = qid" by simp
  from r show "s_Ratio r = (if n_ids > 0 then true_divide (s_Count r) n_ids else 0)"
    by simp
  from value_counts_member [OF p] r show "s_Code r \<in> snd ` set (melted_codes tn df qid)"
    by simp
qed

lemma respondents_with_le:
  "respondents_with tn df qid code \<le> length (filter (\<lambda>m. snd m = code) (melted_codes tn df qid))"
  unfolding respondents_with_def
  by (rule order_trans [OF length_remdups_leq]) simp

text \<open>
  The count of cells is the number of respondents exactly when the cells that hold the
  code belong to different respondents.
\<close>

lemma respondents_with_eq_iff:
  "length (filter (\<lambda>m. snd m = code) (melted_codes tn df qid)) = respondents_with tn df qid code
     \<longleftrightarrow> distinct (map fst (filter (\<lambda>m. snd m = code) (melted_codes tn df qid)))"
  unfolding respondents_with_def
  by (metis length_map length_remdups_eq remdups_id_iff_distinct)

text \<open>
  Claim C7, as amended. For every row of the summary of a question, \<^verbatim>\<open>Count\<close> is the
  number of code cells of the question's frame that hold the code, after trimming and
  without the blank and non-numeric cells. It is positive and at least the number of
  respondents with that code, and it equals that number exactly when no respondent
  has this code in two cells; a respondent whose reply lists the code twice adds 2.
\<close>

theorem count_is_number_of_cells:
  assumes "r \<in> set (code_counts tn n_ids qid df)"
  shows "s_Count r = length (filter (\<lambda>m. snd m = s_Code r) (melted_codes tn df qid)) \<and>
         0 < s_Count r \<and>
         respondents_with tn df qid (s_Code r) \<le> s_Count r \<and>
         (s_Count r = respondents_with tn df qid (s_Code r) \<longleftrightarrow>
            distinct (map fst (filter (\<lambda>m. snd m = s_Code r) (melted_codes tn df qid))))"
proof -
  note c = code_counts_member(2) [OF assms]
  from code_counts_member(4) [OF assms]
  have "filter (\<lambda>m. snd m = s_Code r) (melted_codes tn df qid) \<noteq> []"
    by (force simp: filter_empty_conv)
  with c have "0 < s_Count r"
    by simp
  with c respondents_with_le [of tn df qid "s_Code r"]
    respondents_with_eq_iff [of "s_Code r" tn df qid]
  show ?thesis
    by simp
qed

lemmas float_eval =
  true_divide_def float64_of_nat_def round_div_def float_exponent_def bit_length.simps Let_def

text \<open>The float64 quotients of the examples.\<close>

lemma true_divide_values:
  "true_divide 1 2 = 1 / 2"
  "true_divide 2 2 = 1"
  "true_divide 1 3 = 6004799503160661 / 18014398509481984"
  "true_divide 2 3 = 6004799503160661 / 9007199254740992"
  "true_divide (Suc 0) 2 = 1 / 2"
  "true_divide (Suc 0) 3 = 6004799503160661 / 18014398509481984"
  by (simp_all add: float_eval)

lemma true_divide_Suc_values:
  "true_divide (Suc 0) (Suc (Suc 0)) = 1 / 2"
  "true_divide (Suc (Suc 0)) (Suc (Suc 0)) = 1"
  "true_divide (Suc 0) (Suc (Suc (Suc 0))) = 6004799503160661 / 18014398509481984"
  "true_divide (Suc (Suc 0)) (Suc (Suc (Suc 0))) = 6004799503160661 / 9007199254740992"
  using true_divide_values by (simp_all add: numeral_2_eq_2 numeral_3_eq_3)

lemmas summary_eval =
  repeated_code_state_def repeated_code_reply_def coding_question_def coding_loop.simps
  coding_attempt_def initial_call_def max_retries_def no_questions_def frame_empty_def
  parse_output_eval df_codeframe_def code_counts_def total_ids_def merged_ids_def
  melted_codes_def melt_def qid_cols_def astype_str_def value_counts_def respondents_with_def
  true_divide_values true_divide_Suc_values

lemma repeated_code_frames:
  "dfs repeated_code_state =
     [\<lparr>fcolumns = [ascii ''ID'', ascii ''Q1_1'', ascii ''Q1_2''],
       frows = [(Some 1, [(ascii ''Q1_1'', ascii ''5''), (ascii ''Q1_2'', ascii ''5'')]),
                (Some 2, [(ascii ''Q1_1'', ascii ''7'')])]\<rparr>] \<and>
   processed_qids repeated_code_state = [ascii ''Q1'']"
  by (simp add: summary_eval)

theorem count_is_number_of_cells_witness:
  "\<lparr>s_QID = ascii ''Q1'', s_Code = ascii ''7'', s_Count = 1, s_Ratio = 1 / 2\<rparr>
     \<in> set (code_counts to_numeric 2 (ascii ''Q1'') (hd (dfs repeated_code_state))) \<and>
   \<not> distinct (melted_codes to_numeric (hd (dfs repeated_code_state)) (ascii ''Q1'')) \<and>
   distinct (map fst (filter (\<lambda>m. snd m = ascii ''7'')
     (melted_codes to_numeric (hd (dfs repeated_code_state)) (ascii ''Q1'')))) \<and>
   respondents_with to_numeric (hd (dfs repeated_code_state)) (ascii ''Q1'') (ascii ''7'') = 1"
proof -
  have m: "\<lparr>s_QID = ascii ''Q1'', s_Code = ascii ''7'', s_Count = 1, s_Ratio = 1 / 2\<rparr>
     \<in> set (code_counts to_numeric 2 (ascii ''Q1'') (hd (dfs repeated_code_state)))"
    by (simp add: summary_eval)
  have g: "\<not> distinct (melted_codes to_numeric (hd (dfs repeated_code_state)) (ascii ''Q1''))"
    by (simp add: summary_eval)
  have d: "distinct (map fst (filter (\<lambda>m. snd m = ascii ''7'')
     (melted_codes to_numeric (hd (dfs repeated_code_state)) (ascii ''Q1''))))"
    by (simp add: summary_eval)
  note iff = count_is_number_of_cells [OF m, THEN conjunct2, THEN conjunct2, THEN conjunct2]
  have r: "respondents_with to_numeric (hd (dfs repeated_code_state)) (ascii ''Q1'')
      (ascii ''7'') = 1"
    by (rule iff [unfolded summary_row.select_convs, THEN iffD2, OF d, symmetric])
  from m g d r show ?thesis
    by (intro conjI)
qed

text \<open>
  For the reply \<^verbatim>\<open>1,5,5;2,7\<close> the code 5 has the count 2 and one respondent.
\<close>

theorem count_counterexample:
  "map s_Code (df_codeframe to_numeric repeated_code_state) = [ascii ''5'', ascii ''7''] \<and>
   map s_Count (df_codeframe to_numeric repeated_code_state) = [2, 1] \<and>
   respondents_with to_numeric (hd (dfs repeated_code_state)) (ascii ''Q1'') (ascii ''5'') = 1"
  by (simp add: summary_eval)

lemma total_ids_card: "total_ids fs = card (set (merged_ids fs))"
  by (simp add: total_ids_def length_remdups_card_conv)

lemma melted_codes_ids:
  "m \<in> set (melted_codes tn df qid) \<Longrightarrow> fst m \<in> fst ` set (frows df)"
  by (force simp: melted_codes_def melt_def Let_def)

lemma summary_row_has_id:
  assumes "p \<in> set (zip qids fs)" and "r \<in> set (code_counts tn n_ids (fst p) (snd p))"
  shows "0 < total_ids fs"
proof -
  from code_counts_member(4) [OF assms(2)]
  obtain m where "m \<in> set (melted_codes tn (snd p) (fst p))"
    by auto
  then have "fst m \<in> fst ` set (frows (snd p))"
    by (rule melted_codes_ids)
  moreover from assms(1) have "snd p \<in> set fs"
    by (metis prod.collapse set_zip_rightD)
  ultimately have "fst m \<in> set (merged_ids fs)"
    by (auto simp: merged_ids_def)
  then have "set (merged_ids fs) \<noteq> {}"
    by auto
  then show ?thesis
    by (simp add: total_ids_card card_gt_0_iff)
qed

text \<open>
  Claim C8, as amended. For every row of the summary, \<^verbatim>\<open>Ratio\<close> is the float64
  quotient of \<^verbatim>\<open>Count\<close> and n, the number of distinct respondent IDs of the merged
  table: both are converted to float64 and divided, each step rounded to the nearest
  float64. \<^verbatim>\<open>Count\<close> is the number of cells of claim C7, so the quotient is that of
  k and n for a code that k of the n respondents have when none of them has it in two
  cells. Whenever the summary has a row, n is positive, so the division is never by
  zero; when the merged table has no ID the summary has no row, and the loop body
  with 0 for the number of IDs gives the ratio 0 in every row.
\<close>

theorem ratio_is_float_quotient:
  "(r \<in> set (df_codeframe tn st) \<longrightarrow>
      0 < total_ids (dfs st) \<and>
      total_ids (dfs st) = card (set (merged_ids (dfs st))) \<and>
      s_Ratio r = true_divide (s_Count r) (total_ids (dfs st)) \<and>
      (\<exists>p \<in> set (zip (processed_qids st) (dfs st)).
         s_QID r = fst p \<and>
         s_Count r =
           length (filter (\<lambda>m. snd m = s_Code r) (melted_codes tn (snd p) (fst p))) \<and>
         (distinct (map fst (filter (\<lambda>m. snd m = s_Code r)
                                (melted_codes tn (snd p) (fst p)))) \<longrightarrow>
            s_Count r = respondents_with tn (snd p) (fst p) (s_Code r)))) \<and>
   (total_ids (dfs st) = 0 \<longrightarrow> df_codeframe tn st = []) \<and>
   (r' \<in> set (code_counts tn 0 qid df) \<longrightarrow> s_Ratio r' = 0)"
proof -
  have rows: "0 < total_ids (dfs st) \<and>
      total_ids (dfs st) = card (set (merged_ids (dfs st))) \<and>
      s_Ratio x = true_divide (s_Count x) (total_ids (dfs st)) \<and>
      (\<exists>p \<in> set (zip (processed_qids st) (dfs st)).
         s_QID x = fst p \<and>
         s_Count x =
           length (filter (\<lambda>m. snd m = s_Code x) (melted_codes tn (snd p) (fst p))) \<and>
         (distinct (map fst (filter (\<lambda>m. snd m = s_Code x)
                                (melted_codes tn (snd p) (fst p)))) \<longrightarrow>
            s_Count x = respondents_with tn (snd p) (fst p) (s_Code x)))"
    if "x \<in> set (df_codeframe tn st)" for x
  proof -
    from that obtain p where p: "p \<in> set (zip (processed_qids st) (dfs st))"
      and x: "x \<in> set (code_counts tn (total_ids (dfs st)) (fst p) (snd p))"
      by (auto simp: df_codeframe_def)
    note m = code_counts_member [OF x]
    from summary_row_has_id [OF p x] have pos: "0 < total_ids (dfs st)" .
    with m(3) have ratio: "s_Ratio x = true_divide (s_Count x) (total_ids (dfs st))"
      by simp
    from m(1,2) respondents_with_eq_iff [of "s_Code x" tn "snd p" "fst p"]
    have "s_QID x = fst p \<and>
        s_Count x =
          length (filter (\<lambda>m. snd m = s_Code x) (melted_codes tn (snd p) (fst p))) \<and>
        (distinct (map fst (filter (\<lambda>m. snd m = s_Code x)
                               (melted_codes tn (snd p) (fst p)))) \<longrightarrow>
           s_Count x = respondents_with tn (snd p) (fst p) (s_Code x))"
      by simp
    with p have "\<exists>p \<in> set (zip (processed_qids st) (dfs st)).
        s_QID x = fst p \<and>
        s_Count x =
          length (filter (\<lambda>m. snd m = s_Code x) (melted_codes tn (snd p) (fst p))) \<and>
        (distinct (map fst (filter (\<lambda>m. snd m = s_Code x)
                               (melted_codes tn (snd p) (fst p)))) \<longrightarrow>
           s_Count x = respondents_with tn (snd p) (fst p) (s_Code x))"
      by (rule_tac x = p in bexI)
    with pos ratio total_ids_card [of "dfs st"] show ?thesis
      by (intro conjI)
  qed
  have none: "df_codeframe tn st = []" if "total_ids (dfs st) = 0"
  proof (cases "df_codeframe tn st")
    case Nil
    then show ?thesis .
  next
    case (Cons x xs)
    then have "x \<in> set (df_codeframe tn st)"
      by simp
    from rows [OF this] that show ?thesis
      by simp
  qed
  have zero: "s_Ratio r' = 0" if "r' \<in> set (code_counts tn 0 qid df)"
    using code_counts_member(3) [OF that] by simp
  from impI [OF rows [of r]] impI [OF none] impI [OF zero] show ?thesis
    by (intro conjI)
qed

theorem ratio_is_float_quotient_witness:
  "\<lparr>s_QID = ascii ''Q1'', s_Code = ascii ''7'', s_Count = 1, s_Ratio = 1 / 2\<rparr>
     \<in> set (df_codeframe to_numeric repeated_code_state) \<and>
   total_ids (dfs repeated_code_state) = 2 \<and>
   true_divide 1 2 = 1 / 2 \<and>
   \<lparr>s_QID = ascii ''Q1'', s_Code = ascii ''7'', s_Count = 1, s_Ratio = 0\<rparr>
     \<in> set (code_counts to_numeric 0 (ascii ''Q1'') (hd (dfs repeated_code_state)))"
proof -
  have m: "\<lparr>s_QID = ascii ''Q1'', s_Code = ascii ''7'', s_Count = 1, s_Ratio = 1 / 2\<rparr>
     \<in> set (df_codeframe to_numeric repeated_code_state)"
    by (simp add: summary_eval)
  have z: "\<lparr>s_QID = ascii ''Q1'', s_Code = ascii ''7'', s_Count = 1, s_Ratio = 0\<rparr>
     \<in> set (code_counts to_numeric 0 (ascii ''Q1'') (hd (dfs repeated_code_state)))"
    by (simp add: summary_eval)
  have n: "total_ids (dfs repeated_code_state) = 2"
    by (simp add: summary_eval)
  from ratio_is_float_quotient
    [of "\<lparr>s_QID = ascii ''Q1'', s_Code = ascii ''7'', s_Count = 1, s_Ratio = 1 / 2\<rparr>"
        to_numeric repeated_code_state
        "\<lparr>s_QID = ascii ''Q1'', s_Code = ascii ''7'', s_Count = 1, s_Ratio = 0\<rparr>"
        "ascii ''Q1''" "hd (dfs repeated_code_state)"] m z n
  show ?thesis
    by (simp del: ascii_Cons)
qed

text \<open>
  For the reply \<^verbatim>\<open>1,5,5;2,7\<close> the code 5 is assigned to 1 of 2 respondents and its
  ratio is 1. For the reply of claim C1 the code 5 is assigned to 2 of 3 respondents,
  each once, and its ratio is the float64 nearest to 2/3, not 2/3.
\<close>

theorem ratio_counterexample:
  "s_Code (hd (df_codeframe to_numeric repeated_code_state)) = ascii ''5'' \<and>
   s_Ratio (hd (df_codeframe to_numeric repeated_code_state)) = 1 \<and>
   respondents_with to_numeric (hd (dfs repeated_code_state)) (ascii ''Q1'') (ascii ''5'') = 1 \<and>
   total_ids (dfs repeated_code_state) = 2 \<and>
   \<lparr>s_QID = ascii ''Q1'', s_Code = ascii ''5'', s_Count = 2,
     s_Ratio = 6004799503160661 / 9007199254740992\<rparr>
     \<in> set (code_counts to_numeric (total_ids [frame_example]) (ascii ''Q1'') frame_example) \<and>
   respondents_with to_numeric frame_example (ascii ''Q1'') (ascii ''5'') = 2 \<and>
   total_ids [frame_example] = 3 \<and>
   (6004799503160661 / 9007199254740992 :: rat) \<noteq> 2 / 3"
  by (simp add: summary_eval frame_example_def)

end
